theory Spec2Isabelle
  imports Main "HOL-Library.Sublist" "HOL-Library.Char_ord" "HOL-Library.List_Lexorder"
begin

section \<open>Strings\<close>

text \<open>
  Go strings are byte sequences; they are modelled as \<open>string\<close> (a list of \<open>char\<close>).
  The separator of \<^verbatim>\<open>path/filepath\<close> is the slash: the program targets Unix paths
  (\<^verbatim>\<open>checkClusterPath\<close> hard-codes it in its pattern).
\<close>

definition Separator :: char where
  "Separator = CHR ''/''"

text \<open>\<^verbatim>\<open>strings.Split(s, sep)\<close> for a one-byte separator: never the empty list.\<close>

fun Split :: "char \<Rightarrow> string \<Rightarrow> string list" where
  "Split sep [] = [[]]"
| "Split sep (c # cs) =
     (if c = sep then [] # Split sep cs
      else (case Split sep cs of [] \<Rightarrow> [[c]] | x # xs \<Rightarrow> (c # x) # xs))"

definition HasPrefix :: "string \<Rightarrow> string \<Rightarrow> bool" where
  "HasPrefix s p = (take (length p) s = p)"

definition HasSuffix :: "string \<Rightarrow> string \<Rightarrow> bool" where
  "HasSuffix s p = (length p \<le> length s \<and> drop (length s - length p) s = p)"

definition TrimPrefix :: "string \<Rightarrow> string \<Rightarrow> string" where
  "TrimPrefix s p = (if HasPrefix s p then drop (length p) s else s)"

definition TrimSuffix :: "string \<Rightarrow> string \<Rightarrow> string" where
  "TrimSuffix s p = (if HasSuffix s p then take (length s - length p) s else s)"

text \<open>\<^verbatim>\<open>strings.TrimRight(s, "/")\<close>: all trailing separators removed.\<close>

definition TrimRight :: "string \<Rightarrow> char \<Rightarrow> string" where
  "TrimRight s c = rev (dropWhile (\<lambda>x. x = c) (rev s))"

text \<open>\<^verbatim>\<open>strings.Contains\<close>: \<open>sub\<close> occurs in \<open>s\<close> as a contiguous block.\<close>

fun Contains :: "string \<Rightarrow> string \<Rightarrow> bool" where
  "Contains [] sub = (sub = [])"
| "Contains (c # cs) sub = (HasPrefix (c # cs) sub \<or> Contains cs sub)"

text \<open>
  A Go string holds UTF-8 and a \<open>char\<close> is one of its bytes. \<^verbatim>\<open>strings.TrimSpace\<close> removes
  the leading and the trailing code points that \<^verbatim>\<open>unicode.IsSpace\<close> accepts: U+0009 to
  U+000D, U+0020, U+0085, U+00A0, U+1680, U+2000 to U+200A, U+2028, U+2029, U+202F, U+205F
  and U+3000. \<open>whiteSpace\<close> lists their encodings. Bytes that are not valid UTF-8 decode to
  U+FFFD, which is not white space: trimming stops there, as it does at any other code
  point. From the right Go decodes the last code point of the string, which is white
  space exactly when the string ends with one of these encodings.
\<close>

definition whiteSpace :: "string list" where
  "whiteSpace =
     [[CHR 0x09], [CHR 0x0A], [CHR 0x0B], [CHR 0x0C], [CHR 0x0D], [CHR 0x20],
      [CHR 0xC2, CHR 0x85], [CHR 0xC2, CHR 0xA0],
      [CHR 0xE1, CHR 0x9A, CHR 0x80],
      [CHR 0xE2, CHR 0x80, CHR 0x80], [CHR 0xE2, CHR 0x80, CHR 0x81],
      [CHR 0xE2, CHR 0x80, CHR 0x82], [CHR 0xE2, CHR 0x80, CHR 0x83],
      [CHR 0xE2, CHR 0x80, CHR 0x84], [CHR 0xE2, CHR 0x80, CHR 0x85],
      [CHR 0xE2, CHR 0x80, CHR 0x86], [CHR 0xE2, CHR 0x80, CHR 0x87],
      [CHR 0xE2, CHR 0x80, CHR 0x88], [CHR 0xE2, CHR 0x80, CHR 0x89],
      [CHR 0xE2, CHR 0x80, CHR 0x8A],
      [CHR 0xE2, CHR 0x80, CHR 0xA8], [CHR 0xE2, CHR 0x80, CHR 0xA9],
      [CHR 0xE2, CHR 0x80, CHR 0xAF],
      [CHR 0xE2, CHR 0x81, CHR 0x9F],
      [CHR 0xE3, CHR 0x80, CHR 0x80]]"

text \<open>\<^verbatim>\<open>strings.TrimLeftFunc(s, unicode.IsSpace)\<close> and \<^verbatim>\<open>strings.TrimRightFunc(s, unicode.IsSpace)\<close>\<close>

function TrimLeftSpace :: "string \<Rightarrow> string" where
  "TrimLeftSpace s =
     (case find (HasPrefix s) whiteSpace of
        None \<Rightarrow> s
      | Some w \<Rightarrow> TrimLeftSpace (drop (length w) s))"
  by pat_completeness auto
termination
proof (relation "measure length")
  show "wf (measure length)" by simp
next
  fix s w
  assume "find (HasPrefix s) whiteSpace = Some w"
  then have "w \<in> set whiteSpace" and "HasPrefix s w"
    by (auto simp: find_Some_iff)
  then have "w \<noteq> []" and "take (length w) s = w"
    by (auto simp: whiteSpace_def HasPrefix_def)
  then have "s \<noteq> []" by auto
  with \<open>w \<noteq> []\<close> show "(drop (length w) s, s) \<in> measure length" by simp
qed

function TrimRightSpace :: "string \<Rightarrow> string" where
  "TrimRightSpace s =
     (case find (HasSuffix s) whiteSpace of
        None \<Rightarrow> s
      | Some w \<Rightarrow> TrimRightSpace (take (length s - length w) s))"
  by pat_completeness auto
termination
proof (relation "measure length")
  show "wf (measure length)" by simp
next
  fix s w
  assume "find (HasSuffix s) whiteSpace = Some w"
  then have "w \<in> set whiteSpace" and "HasSuffix s w"
    by (auto simp: find_Some_iff)
  then have "w \<noteq> []" and "length w \<le> length s"
    by (auto simp: whiteSpace_def HasSuffix_def)
  then show "(take (length s - length w) s, s) \<in> measure length" by (cases s) auto
qed

declare TrimLeftSpace.simps [simp del] TrimRightSpace.simps [simp del]

definition TrimSpace :: "string \<Rightarrow> string" where
  "TrimSpace s = TrimRightSpace (TrimLeftSpace s)"

section \<open>Data model (\<^verbatim>\<open>pkg/repo/flux/types.go\<close>)\<close>

text \<open>
  The records of this section are the structs as the passes that follow the crawl read
  them: a pointer to a string, to a source reference or to a \<^verbatim>\<open>postBuild\<close> block is
  replaced by the value it leads to, \<open>None\<close> for \<^verbatim>\<open>nil\<close>. \<^verbatim>\<open>setSource\<close> reads through these
  pointers and writes neither through them nor to what they lead to, so these values
  stay what they are during the pass. \<^verbatim>\<open>parseYaml\<close>, where the decoder writes through
  the pointers, has the same structs with their pointers in the section on decoding.
\<close>

datatype FluxFileType = Base | Patch | Complete

record shortMeta =
  Name :: string
  Namespace :: "string option"

text \<open>
  The \<^verbatim>\<open>sourceRef\<close> of a Kustomization is decoded into a \<^verbatim>\<open>shortSource\<close> of which only
  the YAML fields (kind, name, namespace) are ever filled.
\<close>

record sourceRef =
  refKind :: string
  refName :: string
  refNamespace :: "string option"

text \<open>
  \<^verbatim>\<open>postBuild.substitute\<close> is a Go map. It is kept as the list of its entries in the
  order in which a \<^verbatim>\<open>range\<close> loop visits them (Go leaves that order unspecified).
\<close>

record postBuild =
  Substitute :: "(string \<times> string) list"

record shortSpec =
  Path :: "string option"
  Source :: "sourceRef option"
  PostBuild :: "postBuild option"

text \<open>
  Pointers into the two stores \<^verbatim>\<open>m.kustomizations\<close> and \<^verbatim>\<open>m.sources\<close>
  (\<^verbatim>\<open>&m.kustomizations[i]\<close>, \<^verbatim>\<open>&m.sources[s]\<close>) are the index of the slot they
  point to; \<^verbatim>\<open>nil\<close> is \<open>None\<close>. Neither store grows once the crawl is over, so
  a slot keeps its address during linking and source binding.
\<close>

record shortApi =
  ApiVersion :: string
  Kind :: string
  Metadata :: shortMeta
  Spec :: shortSpec
  api_id :: string
  children :: "nat list"
  filepath :: string
  ftype :: FluxFileType
  kustomize :: string
  parent :: "nat option"
  source :: "nat option"
  root :: string

record shortSource =
  srcMeta :: shortMeta
  srcKind :: string
  srcChildren :: "nat list"
  srcFilepath :: string
  srcId :: string
  srcParent :: "nat option"

section \<open>Decoding (\<^verbatim>\<open>parseYaml\<close>)\<close>

text \<open>
  Some YAML fields of the structs are pointers (\<^verbatim>\<open>*string\<close>, \<^verbatim>\<open>*shortSource\<close>,
  \<^verbatim>\<open>*postBuild\<close>, the last one holding a map). \<^verbatim>\<open>parseYaml\<close> decodes every document of
  a file into the same variable \<^verbatim>\<open>doc\<close> and appends copies of it: a copy shares what its
  pointers lead to with \<^verbatim>\<open>doc\<close> and with the other copies. In this part a pointer is
  therefore an address and the cells live in a memory that is passed along; \<open>None\<close> is
  \<^verbatim>\<open>nil\<close>. An address is a position in the memory and a new cell is put at its end.
\<close>

type_synonym addr = nat

text \<open>
  What a \<^verbatim>\<open>*string\<close>, a \<^verbatim>\<open>*shortSource\<close> decoded from \<^verbatim>\<open>sourceRef\<close> (kind, name, namespace;
  its other fields stay zero) and a \<^verbatim>\<open>*postBuild\<close> (the entries of its map) lead to.
\<close>

datatype cell =
    StringCell string
  | SourceCell string string "addr option"
  | PostBuildCell "(string \<times> string) list"

text \<open>The structs of \<^verbatim>\<open>types.go\<close> as they are stored, field by field.\<close>

record shortMetaP =
  p_Name :: string
  p_Namespace :: "addr option"

record shortSpecP =
  p_Path :: "addr option"
  p_Source :: "addr option"
  p_PostBuild :: "addr option"

record shortApiP =
  p_ApiVersion :: string
  p_Kind :: string
  p_Metadata :: shortMetaP
  p_Spec :: shortSpecP
  p_id :: string
  p_children :: "nat list"
  p_filepath :: string
  p_ftype :: FluxFileType
  p_kustomize :: string
  p_parent :: "nat option"
  p_source :: "nat option"
  p_root :: string

record shortSourceP =
  p_srcMeta :: shortMetaP
  p_srcKind :: string
  p_srcChildren :: "nat list"
  p_srcFilepath :: string
  p_srcId :: string
  p_srcParent :: "nat option"

definition kustomizationApi :: string where
  "kustomizationApi = ''kustomize.toolkit.fluxcd.io''"

definition sourceApi :: string where
  "sourceApi = ''source.toolkit.fluxcd.io''"

text \<open>\<^verbatim>\<open>var doc shortApi\<close>: the zero value.\<close>

definition zeroApi :: shortApiP where
  "zeroApi =
     \<lparr> p_ApiVersion = [], p_Kind = [],
       p_Metadata = \<lparr> p_Name = [], p_Namespace = None \<rparr>,
       p_Spec = \<lparr> p_Path = None, p_Source = None, p_PostBuild = None \<rparr>,
       p_id = [], p_children = [], p_filepath = [], p_ftype = Base, p_kustomize = [],
       p_parent = None, p_source = None, p_root = [] \<rparr>"

text \<open>
  The YAML decoder is a collaborator of the program. One call \<^verbatim>\<open>dec.Decode(&doc)\<close> is
  given by what it does: whether it returns \<^verbatim>\<open>nil\<close> (\<open>decodes\<close>), and what it writes to
  \<^verbatim>\<open>doc\<close> and to the cells (\<open>writes\<close>). Nothing is assumed about the writes: the decoder
  may keep a field of the previous document, may write to a cell that \<^verbatim>\<open>doc\<close> already
  points to, and may have written part of a document when it returns an error. A file
  is the list of its documents; at the end of the list the call returns \<^verbatim>\<open>io.EOF\<close>.
\<close>

type_synonym decodeState = "shortApiP \<times> cell list"

datatype document = Document (decodes: bool) (writes: "decodeState \<Rightarrow> decodeState")

text \<open>
  \<^verbatim>\<open>doc.Spec.Source.Namespace = doc.Metadata.Namespace\<close>, done when the source reference
  is there and has no namespace: a write to the cell of the reference.
\<close>

definition inheritNamespace :: "shortApiP \<Rightarrow> cell list \<Rightarrow> cell list" where
  "inheritNamespace d mem =
     (case p_Source (p_Spec d) of
        None \<Rightarrow> mem
      | Some p \<Rightarrow>
          (if p < length mem then
             (case mem ! p of
                SourceCell k n None \<Rightarrow> mem[p := SourceCell k n (p_Namespace (p_Metadata d))]
              | _ \<Rightarrow> mem)
           else mem))"

text \<open>
  The loop \<^verbatim>\<open>for dec.Decode(&doc) == nil\<close> of \<^verbatim>\<open>parseYaml\<close>, from the document at position
  \<open>n\<close> of the file on. It ends at the end of the input or at the first call that
  returns an error. \<open>uuid n\<close> is the random UUID drawn while the document at position \<open>n\<close>
  is handled. The result is the two slices and the final contents of \<^verbatim>\<open>doc\<close> and of the
  memory.
\<close>

fun parseYamlFrom :: "nat \<Rightarrow> (nat \<Rightarrow> string) \<Rightarrow> document list \<Rightarrow> string \<Rightarrow> string
    \<Rightarrow> decodeState \<Rightarrow> shortApiP list \<times> shortSourceP list \<times> decodeState" where
  "parseYamlFrom n uuid [] rt path st = ([], [], st)"
| "parseYamlFrom n uuid (d # rest) rt path st =
     (case writes d st of (doc, mem) \<Rightarrow>
        if \<not> decodes d then ([], [], (doc, mem))
        else if hd (Split CHR ''/'' (p_ApiVersion doc)) = kustomizationApi then
          (let mem' = inheritNamespace doc mem;
               doc' = doc\<lparr> p_id := take 8 (uuid n),
                           p_root := rt,
                           p_filepath := TrimPrefix path (rt @ [Separator]),
                           p_ftype := Base \<rparr>
           in case parseYamlFrom (Suc n) uuid rest rt path (doc', mem') of
                (ks, ss, st') \<Rightarrow> (doc' # ks, ss, st'))
        else if hd (Split CHR ''/'' (p_ApiVersion doc)) = sourceApi then
          (let src = \<lparr> p_srcMeta = \<lparr> p_Name = p_Name (p_Metadata doc),
                                     p_Namespace = p_Namespace (p_Metadata doc) \<rparr>,
                       p_srcKind = p_Kind doc,
                       p_srcChildren = [],
                       p_srcFilepath = path,
                       p_srcId = take 8 (uuid n),
                       p_srcParent = None \<rparr>
           in case parseYamlFrom (Suc n) uuid rest rt path (doc, mem) of
                (ks, ss, st') \<Rightarrow> (ks, src # ss, st'))
        else parseYamlFrom (Suc n) uuid rest rt path (doc, mem))"

definition parseYaml :: "(nat \<Rightarrow> string) \<Rightarrow> document list \<Rightarrow> string \<Rightarrow> string
    \<Rightarrow> shortApiP list \<times> shortSourceP list \<times> decodeState" where
  "parseYaml uuid input rt path = parseYamlFrom 0 uuid input rt path (zeroApi, [])"

subsection \<open>An example file\<close>

text \<open>
  What the decoder of \<^verbatim>\<open>gopkg.in/yaml.v3\<close> writes for a key that a document holds: a
  string field is overwritten; for a pointer field, a \<^verbatim>\<open>nil\<close> pointer receives a new
  cell, and a pointer that is set keeps its cell, which is overwritten. A key that the
  document does not hold leaves the field as it is.
\<close>

definition setApiVersion :: "string \<Rightarrow> decodeState \<Rightarrow> decodeState" where
  "setApiVersion v = (\<lambda>(doc, mem). (doc\<lparr> p_ApiVersion := v \<rparr>, mem))"

definition setKind :: "string \<Rightarrow> decodeState \<Rightarrow> decodeState" where
  "setKind v = (\<lambda>(doc, mem). (doc\<lparr> p_Kind := v \<rparr>, mem))"

definition setName :: "string \<Rightarrow> decodeState \<Rightarrow> decodeState" where
  "setName v = (\<lambda>(doc, mem). (doc\<lparr> p_Metadata := (p_Metadata doc)\<lparr> p_Name := v \<rparr> \<rparr>, mem))"

definition setNamespace :: "string \<Rightarrow> decodeState \<Rightarrow> decodeState" where
  "setNamespace v =
     (\<lambda>(doc, mem).
        case p_Namespace (p_Metadata doc) of
          None \<Rightarrow> (doc\<lparr> p_Metadata := (p_Metadata doc)\<lparr> p_Namespace := Some (length mem) \<rparr> \<rparr>,
                    mem @ [StringCell v])
        | Some p \<Rightarrow> (doc, mem[p := StringCell v]))"

text \<open>\<^verbatim>\<open>sourceRef\<close> with the keys \<^verbatim>\<open>kind\<close> and \<^verbatim>\<open>name\<close>, and no \<^verbatim>\<open>namespace\<close>.\<close>

definition setSourceRef :: "string \<Rightarrow> string \<Rightarrow> decodeState \<Rightarrow> decodeState" where
  "setSourceRef k n =
     (\<lambda>(doc, mem).
        case p_Source (p_Spec doc) of
          None \<Rightarrow> (doc\<lparr> p_Spec := (p_Spec doc)\<lparr> p_Source := Some (length mem) \<rparr> \<rparr>,
                    mem @ [SourceCell k n None])
        | Some p \<Rightarrow>
            (doc, mem[p := SourceCell k n (case mem ! p of SourceCell k' n' ns \<Rightarrow> ns | _ \<Rightarrow> None)]))"

text \<open>
  A Kustomization \<open>apps\<close> in the namespace \<open>flux-system\<close>, a GitRepository \<open>podinfo\<close> in
  the namespace \<open>apps\<close>, a document that fails after its name has been decoded, and a
  well-formed Kustomization \<open>infra\<close>.
\<close>

definition exampleFile :: "document list" where
  "exampleFile =
     [Document True (setSourceRef ''GitRepository'' ''flux-system'' \<circ> setNamespace ''flux-system''
                     \<circ> setName ''apps'' \<circ> setKind ''Kustomization''
                     \<circ> setApiVersion ''kustomize.toolkit.fluxcd.io/v1''),
      Document True (setNamespace ''apps'' \<circ> setName ''podinfo'' \<circ> setKind ''GitRepository''
                     \<circ> setApiVersion ''source.toolkit.fluxcd.io/v1''),
      Document False (setName ''broken''),
      Document True (setName ''infra'' \<circ> setKind ''Kustomization''
                     \<circ> setApiVersion ''kustomize.toolkit.fluxcd.io/v1'')]"

definition exampleUuid :: "nat \<Rightarrow> string" where
  "exampleUuid n =
     (if n = 0 then ''0a1b2c3d-5e6f-4a7b-8c9d-0e1f2a3b4c5d'' else ''4e5f6a7b-1c2d-4e3f-9a8b-7c6d5e4f3a2b'')"

section \<open>Substitution (\<^verbatim>\<open>ParseSubstitutions\<close>)\<close>

text \<open>\<^verbatim>\<open>fmt.Sprintf("${%s}", k)\<close>\<close>

definition token :: "string \<Rightarrow> string" where
  "token k = ''${'' @ k @ ''}''"

text \<open>
  \<^verbatim>\<open>strings.ReplaceAll(s, old, new)\<close>: the occurrences of \<open>old\<close> are found from left to
  right and do not overlap. For an empty \<open>old\<close> Go inserts \<open>new\<close> before every character
  and at the end (characters being bytes here); \<^verbatim>\<open>ParseSubstitutions\<close> never asks for
  that, a token having at least three characters.
\<close>

function ReplaceAll :: "string \<Rightarrow> string \<Rightarrow> string \<Rightarrow> string" where
  "ReplaceAll s old new =
     (if old = [] then new @ concat (map (\<lambda>c. c # new) s)
      else if s = [] then []
      else if HasPrefix s old then new @ ReplaceAll (drop (length old) s) old new
      else hd s # ReplaceAll (tl s) old new)"
  by pat_completeness auto
termination
  by (relation "measure (\<lambda>(s, old, new). length s)") auto

declare ReplaceAll.simps [simp del]

text \<open>
  \<^verbatim>\<open>ParseSubstitutions\<close>: one \<^verbatim>\<open>ReplaceAll\<close> per entry of the map, each on the text the
  previous one produced. The list gives the entries in the order the \<^verbatim>\<open>range\<close> loop
  visits them.
\<close>

fun ParseSubstitutions :: "string \<Rightarrow> (string \<times> string) list \<Rightarrow> string" where
  "ParseSubstitutions w [] = w"
| "ParseSubstitutions w ((k, v) # rest) = ParseSubstitutions (ReplaceAll w (token k) v) rest"

text \<open>
  The substitution as the specification words it: one pass over the input, every
  occurrence of a mapped token replaced by its value, the values themselves never
  scanned.
\<close>

fun mappedToken :: "(string \<times> string) list \<Rightarrow> string \<Rightarrow> (string \<times> string) option" where
  "mappedToken [] s = None"
| "mappedToken ((k, v) # rest) s =
     (if HasPrefix s (token k) then Some (k, v) else mappedToken rest s)"

function substitute_spec :: "string \<Rightarrow> (string \<times> string) list \<Rightarrow> string" where
  "substitute_spec w m =
     (if w = [] then []
      else (case mappedToken m w of
              Some (k, v) \<Rightarrow> v @ substitute_spec (drop (length (token k)) w) m
            | None \<Rightarrow> hd w # substitute_spec (tl w) m))"
  by pat_completeness auto
termination
  by (relation "measure (\<lambda>(w, m). length w)") (auto simp: token_def)

declare substitute_spec.simps [simp del]

section \<open>Source binding (\<^verbatim>\<open>setSource\<close>)\<close>

text \<open>
  A cluster node. \<^verbatim>\<open>children\<close> is a slice of pointers; a \<^verbatim>\<open>nil\<close> pointer in it is \<open>None\<close>.
\<close>

datatype cluster =
  Cluster (cl_name: string) (cl_filepath: string) (cl_children: "cluster option list")
    (cl_selected: bool)

text \<open>
  The part of \<^verbatim>\<open>Model\<close> that the resolution passes read and write. The remaining fields
  belong to the display.
\<close>

record Model =
  kustomizations :: "shortApi list"
  sources :: "shortSource list"
  clusters :: "cluster list"
  m_root :: string

definition GetName :: "shortApi \<Rightarrow> string" where
  "GetName a = TrimSpace (Name (Metadata a))"

definition GetNamespace :: "shortApi \<Rightarrow> string" where
  "GetNamespace a = (case Namespace (Metadata a) of None \<Rightarrow> [] | Some ns \<Rightarrow> TrimSpace ns)"

definition GetSourceName :: "sourceRef \<Rightarrow> string" where
  "GetSourceName r = refName r"

definition GetSourceNamespace :: "shortApi \<Rightarrow> sourceRef \<Rightarrow> string" where
  "GetSourceNamespace a r = (case refNamespace r of None \<Rightarrow> GetNamespace a | Some ns \<Rightarrow> ns)"

definition srcGetName :: "shortSource \<Rightarrow> string" where
  "srcGetName s = Name (srcMeta s)"

definition srcGetNamespace :: "shortSource \<Rightarrow> string" where
  "srcGetNamespace s = (case Namespace (srcMeta s) of None \<Rightarrow> [] | Some ns \<Rightarrow> ns)"

text \<open>The two nested tests of \<^verbatim>\<open>setSource\<close>: same kind, then same name and namespace.\<close>

definition sourceMatches :: "shortApi \<Rightarrow> sourceRef \<Rightarrow> shortSource \<Rightarrow> bool" where
  "sourceMatches a r s =
     (refKind r = srcKind s \<and> GetSourceName r = srcGetName s
      \<and> GetSourceNamespace a r = srcGetNamespace s)"

text \<open>
  The loop under \<^verbatim>\<open>// block duplication\<close>: \<^verbatim>\<open>has\<close> is set when a child of the source has
  the name and namespace \<^verbatim>\<open>kName\<close>, \<^verbatim>\<open>kNamespace\<close>, which are those of the source
  reference.
\<close>

definition hasChild :: "shortApi list \<Rightarrow> shortApi \<Rightarrow> sourceRef \<Rightarrow> shortSource \<Rightarrow> bool" where
  "hasChild ks a r s =
     list_ex (\<lambda>c. GetName (ks ! c) = GetSourceName r
                \<and> GetNamespace (ks ! c) = GetSourceNamespace a r) (srcChildren s)"

text \<open>One iteration of \<^verbatim>\<open>for s := range m.sources\<close>.\<close>

definition setSourceStep :: "nat \<Rightarrow> nat \<Rightarrow> 'a Model_scheme \<Rightarrow> 'a Model_scheme" where
  "setSourceStep index s m =
     (let ks = kustomizations m; ss = sources m in
      case Source (Spec (ks ! index)) of
        None \<Rightarrow> m
      | Some r \<Rightarrow>
          if sourceMatches (ks ! index) r (ss ! s) \<and> \<not> hasChild ks (ks ! index) r (ss ! s)
          then m\<lparr> sources := ss[s := (ss ! s)\<lparr> srcChildren := srcChildren (ss ! s) @ [index] \<rparr>],
                  kustomizations := ks[index := (ks ! index)\<lparr> source := Some s \<rparr>] \<rparr>
          else m)"

text \<open>
  \<^verbatim>\<open>setSource\<close>. The loop body reads \<^verbatim>\<open>m.kustomizations[index]\<close>: with an index out of
  range Go panics at the first iteration (\<open>None\<close>); \<^verbatim>\<open>walk\<close> only passes indices of the
  store.
\<close>

definition setSource :: "nat \<Rightarrow> 'a Model_scheme \<Rightarrow> 'a Model_scheme option" where
  "setSource index m =
     (if sources m \<noteq> [] \<and> length (kustomizations m) \<le> index then None
      else Some (fold (setSourceStep index) [0..<length (sources m)] m))"







text \<open>
  A source \<open>flux-system\<close> in the namespace \<open>flux-system\<close>, the reference to it, and two
  manifests that hold this reference: \<open>apps\<close>, and \<open>flux-system\<close>, which is named as the
  source is.
\<close>

definition gitRepository :: "string \<Rightarrow> shortSource" where
  "gitRepository path =
     \<lparr> srcMeta = \<lparr> Name = ''flux-system'', Namespace = Some ''flux-system'' \<rparr>,
       srcKind = ''GitRepository'', srcChildren = [], srcFilepath = path,
       srcId = ''0a1b2c3d'', srcParent = None \<rparr>"

definition appsRef :: sourceRef where
  "appsRef = \<lparr> refKind = ''GitRepository'', refName = ''flux-system'',
               refNamespace = Some ''flux-system'' \<rparr>"

definition appsManifest :: shortApi where
  "appsManifest =
     \<lparr> ApiVersion = ''kustomize.toolkit.fluxcd.io/v1'', Kind = ''Kustomization'',
       Metadata = \<lparr> Name = ''apps'', Namespace = Some ''flux-system'' \<rparr>,
       Spec = \<lparr> Path = Some ''./apps'',
                Source = Some appsRef,
                PostBuild = None \<rparr>,
       api_id = ''4e5f6a7b'', children = [], filepath = ''clusters/prod/apps.yaml'',
       ftype = Base, kustomize = [], parent = None, source = None, root = ''/repo'' \<rparr>"

definition fluxSystemManifest :: shortApi where
  "fluxSystemManifest =
     \<lparr> ApiVersion = ''kustomize.toolkit.fluxcd.io/v1'', Kind = ''Kustomization'',
       Metadata = \<lparr> Name = ''flux-system'', Namespace = Some ''flux-system'' \<rparr>,
       Spec = \<lparr> Path = Some ''./clusters/prod'',
                Source = Some appsRef,
                PostBuild = None \<rparr>,
       api_id = ''8c9d0e1f'', children = [],
       filepath = ''clusters/prod/flux-system/gotk-sync.yaml'',
       ftype = Base, kustomize = [], parent = None, source = None, root = ''/repo'' \<rparr>"

text \<open>Two sources with the same kind, name and namespace, and one manifest that refers to them.\<close>

definition twoSources :: Model where
  "twoSources =
     \<lparr> kustomizations = [appsManifest],
       sources = [gitRepository ''/repo/clusters/prod/flux-system/gotk-sync.yaml'',
                  gitRepository ''/repo/clusters/dev/flux-system/gotk-sync.yaml''],
       clusters = [], m_root = ''/repo'' \<rparr>"


text \<open>
  The layout that \<^verbatim>\<open>flux bootstrap\<close> writes: one source, the manifests \<open>flux-system\<close> and
  \<open>apps\<close>.
\<close>

definition bootstrap :: Model where
  "bootstrap =
     \<lparr> kustomizations = [fluxSystemManifest, appsManifest],
       sources = [gitRepository ''/repo/clusters/prod/flux-system/gotk-sync.yaml''],
       clusters = [], m_root = ''/repo'' \<rparr>"

section \<open>Decoding stops at the first bad document\<close>

lemma parseYamlFrom_stop:
  "parseYamlFrom n uuid (map (Document True) ws @ Document False w # rest) rt path st =
     (case parseYamlFrom n uuid (map (Document True) ws) rt path st of
        (ks, ss, st') \<Rightarrow> (ks, ss, w st'))"
proof (induction ws arbitrary: n st)
  case Nil
  show ?case by (cases "w st") simp
next
  case (Cons a ws)
  obtain doc mem where a: "a st = (doc, mem)"
    by (cases "a st")
  show ?case
    by (simp add: a Let_def Cons.IH split: prod.split)
qed

lemma parseYamlFrom_snoc:
  "parseYamlFrom n uuid (map (Document True) (ws @ [w])) rt path st =
     (case parseYamlFrom n uuid (map (Document True) ws) rt path st of
        (ks, ss, st') \<Rightarrow>
          (case w st' of
             (doc, mem) \<Rightarrow>
               if hd (Split CHR ''/'' (p_ApiVersion doc)) = kustomizationApi then
                 (ks @ [doc\<lparr> p_id := take 8 (uuid (n + length ws)), p_root := rt,
                            p_filepath := TrimPrefix path (rt @ [Separator]), p_ftype := Base \<rparr>],
                  ss,
                  (doc\<lparr> p_id := take 8 (uuid (n + length ws)), p_root := rt,
                        p_filepath := TrimPrefix path (rt @ [Separator]), p_ftype := Base \<rparr>,
                   inheritNamespace doc mem))
               else if hd (Split CHR ''/'' (p_ApiVersion doc)) = sourceApi then
                 (ks,
                  ss @ [\<lparr> p_srcMeta = \<lparr> p_Name = p_Name (p_Metadata doc),
                                        p_Namespace = p_Namespace (p_Metadata doc) \<rparr>,
                          p_srcKind = p_Kind doc, p_srcChildren = [], p_srcFilepath = path,
                          p_srcId = take 8 (uuid (n + length ws)), p_srcParent = None \<rparr>],
                  (doc, mem))
               else (ks, ss, (doc, mem))))"
proof (induction ws arbitrary: n st)
  case Nil
  show ?case by (cases "w st") (simp add: Let_def)
next
  case (Cons a ws)
  obtain doc mem where a: "a st = (doc, mem)"
    by (cases "a st")
  have IH: "parseYamlFrom (Suc n) uuid (map (Document True) (ws @ [w])) rt path st' =
     (case parseYamlFrom (Suc n) uuid (map (Document True) ws) rt path st' of
        (ks, ss, st'') \<Rightarrow>
          (case w st'' of
             (doc, mem) \<Rightarrow>
               if hd (Split CHR ''/'' (p_ApiVersion doc)) = kustomizationApi then
                 (ks @ [doc\<lparr> p_id := take 8 (uuid (Suc (n + length ws))), p_root := rt,
                            p_filepath := TrimPrefix path (rt @ [Separator]), p_ftype := Base \<rparr>],
                  ss,
                  (doc\<lparr> p_id := take 8 (uuid (Suc (n + length ws))), p_root := rt,
                        p_filepath := TrimPrefix path (rt @ [Separator]), p_ftype := Base \<rparr>,
                   inheritNamespace doc mem))
               else if hd (Split CHR ''/'' (p_ApiVersion doc)) = sourceApi then
                 (ks,
                  ss @ [\<lparr> p_srcMeta = \<lparr> p_Name = p_Name (p_Metadata doc),
                                        p_Namespace = p_Namespace (p_Metadata doc) \<rparr>,
                          p_srcKind = p_Kind doc, p_srcChildren = [], p_srcFilepath = path,
                          p_srcId = take 8 (uuid (Suc (n + length ws))), p_srcParent = None \<rparr>],
                  (doc, mem))
               else (ks, ss, (doc, mem))))" for st'
    using Cons.IH [of "Suc n" st'] by (simp only: add_Suc)
  have step: "map (Document True) ((a # ws) @ [w]) = Document True a # map (Document True) (ws @ [w])"
    by simp
  show ?case
    unfolding step
    by (simp add: a Let_def IH split: prod.split del: map_append)
qed

text \<open>
  C10. When a file of several documents is decoded, the loop ends at the first document
  that fails to decode. Every document before it has been handled in turn: one whose
  \<^verbatim>\<open>apiVersion\<close> starts with the group of Kustomizations is appended to the Manifests as
  the copy of \<^verbatim>\<open>doc\<close> (with its id, the root, the path relative to the root and the
  class Base), one with the group of Sources is appended to the Sources, any other adds
  nothing. The records found before the failing document are all returned; the
  documents after it are never looked at, well-formed or not. The copies keep the
  pointers of \<^verbatim>\<open>doc\<close>, so what the failing call has written to the cells is seen through
  the records returned. The last part is the run on the example file: two records, the
  well-formed \<open>infra\<close> after the failing document absent, and the namespace cell of
  \<open>apps\<close> overwritten by the later document \<open>podinfo\<close>.
\<close>

theorem parseYaml_stops_at_first_bad_document:
  "parseYaml uuid (map (Document True) before @ Document False bad # after) rt path =
     (case parseYaml uuid (map (Document True) before) rt path of
        (ks, ss, st) \<Rightarrow> (ks, ss, bad st))
   \<and> parseYaml uuid [] rt path = ([], [], (zeroApi, []))
   \<and> parseYaml uuid (map (Document True) (before @ [good])) rt path =
     (case parseYaml uuid (map (Document True) before) rt path of
        (ks, ss, st) \<Rightarrow>
          (case good st of
             (doc, mem) \<Rightarrow>
               if hd (Split CHR ''/'' (p_ApiVersion doc)) = ''kustomize.toolkit.fluxcd.io'' then
                 (ks @ [doc\<lparr> p_id := take 8 (uuid (length before)), p_root := rt,
                            p_filepath := (if take (Suc (length rt)) path = rt @ ''/''
                                           then drop (Suc (length rt)) path else path),
                            p_ftype := Base \<rparr>],
                  ss,
                  (doc\<lparr> p_id := take 8 (uuid (length before)), p_root := rt,
                        p_filepath := (if take (Suc (length rt)) path = rt @ ''/''
                                       then drop (Suc (length rt)) path else path),
                        p_ftype := Base \<rparr>,
                   (case p_Source (p_Spec doc) of
                      None \<Rightarrow> mem
                    | Some p \<Rightarrow>
                        (if p < length mem then
                           (case mem ! p of
                              SourceCell k nm None \<Rightarrow>
                                mem[p := SourceCell k nm (p_Namespace (p_Metadata doc))]
                            | _ \<Rightarrow> mem)
                         else mem))))
               else if hd (Split CHR ''/'' (p_ApiVersion doc)) = ''source.toolkit.fluxcd.io'' then
                 (ks,
                  ss @ [\<lparr> p_srcMeta = \<lparr> p_Name = p_Name (p_Metadata doc),
                                        p_Namespace = p_Namespace (p_Metadata doc) \<rparr>,
                          p_srcKind = p_Kind doc, p_srcChildren = [], p_srcFilepath = path,
                          p_srcId = take 8 (uuid (length before)), p_srcParent = None \<rparr>],
                  (doc, mem))
               else (ks, ss, (doc, mem))))
   \<and> (case parseYaml exampleUuid exampleFile ''/repo'' ''/repo/clusters/prod/apps.yaml'' of
        (ks, ss, (doc, mem)) \<Rightarrow> (ks, ss, mem)) =
     ([\<lparr> p_ApiVersion = ''kustomize.toolkit.fluxcd.io/v1'', p_Kind = ''Kustomization'',
          p_Metadata = \<lparr> p_Name = ''apps'', p_Namespace = Some 0 \<rparr>,
          p_Spec = \<lparr> p_Path = None, p_Source = Some 1, p_PostBuild = None \<rparr>,
          p_id = ''0a1b2c3d'', p_children = [], p_filepath = ''clusters/prod/apps.yaml'',
          p_ftype = Base, p_kustomize = [], p_parent = None, p_source = None,
          p_root = ''/repo'' \<rparr>],
      [\<lparr> p_srcMeta = \<lparr> p_Name = ''podinfo'', p_Namespace = Some 0 \<rparr>,
          p_srcKind = ''GitRepository'', p_srcChildren = [],
          p_srcFilepath = ''/repo/clusters/prod/apps.yaml'', p_srcId = ''4e5f6a7b'',
          p_srcParent = None \<rparr>],
      [StringCell ''apps'', SourceCell ''GitRepository'' ''flux-system'' (Some 0)])"
proof (intro conjI)
  show "parseYaml uuid (map (Document True) before @ Document False bad # after) rt path =
     (case parseYaml uuid (map (Document True) before) rt path of
        (ks, ss, st) \<Rightarrow> (ks, ss, bad st))"
    unfolding parseYaml_def by (rule parseYamlFrom_stop)
  show "parseYaml uuid [] rt path = ([], [], (zeroApi, []))"
    by (simp add: parseYaml_def)
  show "(case parseYaml exampleUuid exampleFile ''/repo'' ''/repo/clusters/prod/apps.yaml'' of
        (ks, ss, (doc, mem)) \<Rightarrow> (ks, ss, mem)) =
     ([\<lparr> p_ApiVersion = ''kustomize.toolkit.fluxcd.io/v1'', p_Kind = ''Kustomization'',
          p_Metadata = \<lparr> p_Name = ''apps'', p_Namespace = Some 0 \<rparr>,
          p_Spec = \<lparr> p_Path = None, p_Source = Some 1, p_PostBuild = None \<rparr>,
          p_id = ''0a1b2c3d'', p_children = [], p_filepath = ''clusters/prod/apps.yaml'',
          p_ftype = Base, p_kustomize = [], p_parent = None, p_source = None,
          p_root = ''/repo'' \<rparr>],
      [\<lparr> p_srcMeta = \<lparr> p_Name = ''podinfo'', p_Namespace = Some 0 \<rparr>,
          p_srcKind = ''GitRepository'', p_srcChildren = [],
          p_srcFilepath = ''/repo/clusters/prod/apps.yaml'', p_srcId = ''4e5f6a7b'',
          p_srcParent = None \<rparr>],
      [StringCell ''apps'', SourceCell ''GitRepository'' ''flux-system'' (Some 0)])"
    by code_simp
  have tp: "TrimPrefix path (rt @ [Separator]) =
        (if take (Suc (length rt)) path = rt @ ''/'' then drop (Suc (length rt)) path else path)"
    by (simp add: TrimPrefix_def HasPrefix_def Separator_def)
  show "parseYaml uuid (map (Document True) (before @ [good])) rt path =
     (case parseYaml uuid (map (Document True) before) rt path of
        (ks, ss, st) \<Rightarrow>
          (case good st of
             (doc, mem) \<Rightarrow>
               if hd (Split CHR ''/'' (p_ApiVersion doc)) = ''kustomize.toolkit.fluxcd.io'' then
                 (ks @ [doc\<lparr> p_id := take 8 (uuid (length before)), p_root := rt,
                            p_filepath := (if take (Suc (length rt)) path = rt @ ''/''
                                           then drop (Suc (length rt)) path else path),
                            p_ftype := Base \<rparr>],
                  ss,
                  (doc\<lparr> p_id := take 8 (uuid (length before)), p_root := rt,
                        p_filepath := (if take (Suc (length rt)) path = rt @ ''/''
                                       then drop (Suc (length rt)) path else path),
                        p_ftype := Base \<rparr>,
                   (case p_Source (p_Spec doc) of
                      None \<Rightarrow> mem
                    | Some p \<Rightarrow>
                        (if p < length mem then
                           (case mem ! p of
                              SourceCell k nm None \<Rightarrow>
                                mem[p := SourceCell k nm (p_Namespace (p_Metadata doc))]
                            | _ \<Rightarrow> mem)
                         else mem))))
               else if hd (Split CHR ''/'' (p_ApiVersion doc)) = ''source.toolkit.fluxcd.io'' then
                 (ks,
                  ss @ [\<lparr> p_srcMeta = \<lparr> p_Name = p_Name (p_Metadata doc),
                                        p_Namespace = p_Namespace (p_Metadata doc) \<rparr>,
                          p_srcKind = p_Kind doc, p_srcChildren = [], p_srcFilepath = path,
                          p_srcId = take 8 (uuid (length before)), p_srcParent = None \<rparr>],
                  (doc, mem))
               else (ks, ss, (doc, mem))))"
    unfolding parseYaml_def parseYamlFrom_snoc [of 0] tp
      kustomizationApi_def sourceApi_def inheritNamespace_def
    by (simp only: add_0)
qed

section \<open>The substitution engine\<close>

lemma token_nonempty: "token k \<noteq> []"
  by (simp add: token_def)

lemma ReplaceAll_absent:
  "old \<noteq> [] \<Longrightarrow> \<not> Contains s old \<Longrightarrow> ReplaceAll s old new = s"
proof (induction s)
  case Nil
  then show ?case by (subst ReplaceAll.simps) simp
next
  case (Cons c cs)
  then show ?case by (subst ReplaceAll.simps) simp
qed

lemma ParseSubstitutions_absent:
  "\<forall>(k, v) \<in> set m. \<not> Contains w (token k) \<Longrightarrow> ParseSubstitutions w m = w"
  by (induction m) (auto simp: ReplaceAll_absent token_nonempty)

lemma ParseSubstitutions_fold:
  "ParseSubstitutions w m = fold (\<lambda>(k, v) t. ReplaceAll t (token k) v) m w"
  by (induction m arbitrary: w) auto

lemma ReplaceAll_one_pass:
  "ReplaceAll w (token k) v = substitute_spec w [(k, v)]"
proof (induction w "token k" v rule: ReplaceAll.induct)
  case (1 s new)
  show ?case
  proof (cases "s = []")
    case True
    then show ?thesis
      by (simp add: ReplaceAll.simps substitute_spec.simps token_nonempty)
  next
    case False
    show ?thesis
    proof (cases "HasPrefix s (token k)")
      case True
      with False 1(1) show ?thesis
        by (subst substitute_spec.simps, subst ReplaceAll.simps) (simp add: token_nonempty)
    next
      case False
      with \<open>s \<noteq> []\<close> 1(2) show ?thesis
        by (subst substitute_spec.simps, subst ReplaceAll.simps) (simp add: token_nonempty)
    qed
  qed
qed

text \<open>
  C6, as stated, fails: the entries are applied one after another, so a value that holds
  the token of an entry visited later is expanded again. With the map
  \<open>{a: "${b}", b: "y"}\<close> visited in the order \<open>a\<close>, \<open>b\<close>, the text \<open>${a}\<close> becomes
  \<open>y\<close>, where a replacement without nested expansion gives \<open>${b}\<close>.
\<close>

theorem ParseSubstitutions_nested_expansion:
  "ParseSubstitutions ''${a}'' [(''a'', ''${b}''), (''b'', ''y'')] = ''y''
   \<and> substitute_spec ''${a}'' [(''a'', ''${b}''), (''b'', ''y'')] = ''${b}''"
  by code_simp

text \<open>
  C6, amended. \<^verbatim>\<open>ParseSubstitutions\<close> applies the entries of the map one after another,
  in the order the map is iterated, each step replacing every literal occurrence of
  \<open>${name}\<close> in the text produced so far. For a map of one entry this is the pure
  one-pass replacement of the specification; a text in which no mapped token occurs
  is returned unchanged; and \<open>substitute("${a}-${b}", {a: "x"})\<close> is \<open>x-${b}\<close>.
\<close>

theorem ParseSubstitutions_sequential:
  "ParseSubstitutions w m = fold (\<lambda>(k, v) t. ReplaceAll t (token k) v) m w
   \<and> ParseSubstitutions w [(k, v)] = substitute_spec w [(k, v)]
   \<and> ((\<forall>(k', v') \<in> set m. \<not> Contains w (token k')) \<longrightarrow> ParseSubstitutions w m = w)
   \<and> ParseSubstitutions ''${a}-${b}'' [(''a'', ''x'')] = ''x-${b}''"
proof (intro conjI impI)
  show "ParseSubstitutions w m = fold (\<lambda>(k, v) t. ReplaceAll t (token k) v) m w"
    by (rule ParseSubstitutions_fold)
  show "ParseSubstitutions w [(k, v)] = substitute_spec w [(k, v)]"
    by (simp add: ReplaceAll_one_pass)
  show "ParseSubstitutions w m = w" if "\<forall>(k', v') \<in> set m. \<not> Contains w (token k')"
    using that by (rule ParseSubstitutions_absent)
  show "ParseSubstitutions ''${a}-${b}'' [(''a'', ''x'')] = ''x-${b}''"
    by code_simp
qed

theorem ParseSubstitutions_sequential_witness:
  "ParseSubstitutions ''${c}-d'' [(''a'', ''x''), (''b'', ''${a}'')] = ''${c}-d''"
proof -
  have h: "\<forall>(k', v') \<in> set [(''a'', ''x''), (''b'', ''${a}'')]. \<not> Contains ''${c}-d'' (token k')"
    by (simp add: token_def HasPrefix_def)
  from ParseSubstitutions_sequential [of "''${c}-d''" "[(''a'', ''x''), (''b'', ''${a}'')]" "''a''" "''x''"]
  have "(\<forall>(k', v') \<in> set [(''a'', ''x''), (''b'', ''${a}'')]. \<not> Contains ''${c}-d'' (token k'))
        \<longrightarrow> ParseSubstitutions ''${c}-d'' [(''a'', ''x''), (''b'', ''${a}'')] = ''${c}-d''"
    by blast
  with h show ?thesis by blast
qed

section \<open>Source binding\<close>

lemma GetName_source [simp]: "GetName (a\<lparr>source := x\<rparr>) = GetName a"
  by (simp add: GetName_def)

lemma GetNamespace_source [simp]: "GetNamespace (a\<lparr>source := x\<rparr>) = GetNamespace a"
  by (simp add: GetNamespace_def)

lemma GetSourceNamespace_source [simp]:
  "GetSourceNamespace (a\<lparr>source := x\<rparr>) r = GetSourceNamespace a r"
  by (simp add: GetSourceNamespace_def split: option.splits)

lemma sourceMatches_source [simp]:
  "sourceMatches (a\<lparr>source := x\<rparr>) r s = sourceMatches a r s"
  by (simp add: sourceMatches_def)

lemma sourceMatches_srcChildren [simp]:
  "sourceMatches a r (s\<lparr>srcChildren := x\<rparr>) = sourceMatches a r s"
  by (simp add: sourceMatches_def srcGetName_def srcGetNamespace_def)






















subsection \<open>The duplicate test\<close>

text \<open>
  The loop under \<^verbatim>\<open>// block duplication\<close> compares the children of the source with the
  name and namespace of the source reference, not with those of the manifest that is
  being bound. Two runs show what follows. Binding the manifest \<open>apps\<close> twice to the
  source \<open>flux-system\<close> appends it twice: no child is named \<open>flux-system\<close>.
\<close>

lemma setSource_twice_appends_twice:
  "map_option (\<lambda>m. map srcChildren (sources m))
     (Option.bind (setSource 0 (twoSources\<lparr> sources := [gitRepository ''/repo/gotk-sync.yaml''] \<rparr>))
        (setSource 0)) = Some [[0, 0]]"
  by code_simp

text \<open>
  In the layout of \<^verbatim>\<open>flux bootstrap\<close> the manifest \<open>flux-system\<close> is bound first; the
  manifest \<open>apps\<close>, which refers to the same source, then finds a child named as the
  reference is and stays unbound.
\<close>

lemma setSource_leaves_sibling_unbound:
  "map_option (\<lambda>m. (map srcChildren (sources m), map source (kustomizations m)))
     (Option.bind (setSource 0 bootstrap) (setSource 1)) = Some ([[0]], [Some 0, None])"
  by code_simp


end
